theory Spec2Isabelle
  imports Complex_Main
begin

section \<open>Python values used by the bot\<close>

text \<open>
  A Python \<open>str\<close> is the list of its Unicode code points; \<open>str\<close> turns a literal of this
  text into one. The \<open>str\<close> methods the command router calls (\<open>startswith\<close>, \<open>strip\<close>,
  \<open>split(' ')\<close>, \<open>lower\<close>) are written out for every code point.
\<close>

type_synonym pystr = "nat list"

definition str :: "string \<Rightarrow> pystr" where
  "str s = map of_char s"

definition startswith :: "pystr \<Rightarrow> pystr \<Rightarrow> bool" where
  "startswith s p = (take (length p) s = p)"

text \<open>
  \<open>str.strip()\<close> without argument removes the characters for which \<open>str.isspace\<close>
  holds, from both ends. In ASCII these are TAB to CR, the separators \<open>0x1C..0x1F\<close> and
  the space; outside ASCII they are NEL, the no-break space, the Ogham space mark, the
  spaces \<open>U+2000..U+200A\<close>, the line and paragraph separators, the narrow no-break
  space, the medium mathematical space and the ideographic space.
\<close>

definition isspace :: "nat \<Rightarrow> bool" where
  "isspace c =
     (if c < 128 then (9 \<le> c \<and> c \<le> 13) \<or> (28 \<le> c \<and> c \<le> 32)
      else c = 0x85 \<or> c = 0xA0 \<or> c = 0x1680 \<or> (0x2000 \<le> c \<and> c \<le> 0x200A) \<or>
           c = 0x2028 \<or> c = 0x2029 \<or> c = 0x202F \<or> c = 0x205F \<or> c = 0x3000)"

definition strip :: "pystr \<Rightarrow> pystr" where
  "strip s = rev (dropWhile isspace (rev (dropWhile isspace s)))"

text \<open>
  \<open>s.split(' ')\<close> cuts at every single space (code point 32); two spaces in a row give
  an empty piece, and the empty string gives the one-element list \<open>['']\<close>.
\<close>

fun split_space :: "pystr \<Rightarrow> pystr list" where
  "split_space [] = [] # []"
| "split_space (c # cs) =
     (if c = 32 then [] # split_space cs
      else (case split_space cs of
              [] \<Rightarrow> [c] # []
            | p # ps \<Rightarrow> (c # p) # ps))"

text \<open>
  \<open>str.lower()\<close> replaces every character by its lowercase mapping, which may be
  several characters and, for the capital sigma, depends on the neighbours. For an
  ASCII character the mapping is fixed: \<open>A..Z\<close> move up by 32 and every other one
  stays. The Kelvin sign \<open>U+212A\<close> becomes the letter \<open>k\<close>. For every other character
  the mapping is that of the Unicode database of the interpreter, which is not part of
  the sources: it is the parameter \<open>tolower\<close>, given the string and the position of the
  character.
\<close>

type_synonym unicode_lower = "pystr \<Rightarrow> nat \<Rightarrow> pystr"

definition lower_at :: "unicode_lower \<Rightarrow> pystr \<Rightarrow> nat \<Rightarrow> nat \<Rightarrow> pystr" where
  "lower_at tolower s i c =
     (if c < 128 then (if 65 \<le> c \<and> c \<le> 90 then [c + 32] else [c])
      else if c = 0x212A then [0x6B]
      else tolower s i)"

fun lower_from :: "unicode_lower \<Rightarrow> pystr \<Rightarrow> nat \<Rightarrow> pystr \<Rightarrow> pystr" where
  "lower_from tolower s i [] = []"
| "lower_from tolower s i (c # cs) = lower_at tolower s i c @ lower_from tolower s (Suc i) cs"

definition lower :: "unicode_lower \<Rightarrow> pystr \<Rightarrow> pystr" where
  "lower tolower s = lower_from tolower s 0 s"

text \<open>
  What is used of the Unicode database: the lowercase mapping of a character outside
  ASCII, other than the Kelvin sign, contains a character outside ASCII. (The Kelvin
  sign is the only character outside ASCII whose lowercase lies in ASCII.)
\<close>

definition keeps_non_ascii :: "unicode_lower \<Rightarrow> bool" where
  "keeps_non_ascii tolower =
     (\<forall>s i. i < length s \<longrightarrow> 128 \<le> s ! i \<longrightarrow> s ! i \<noteq> 0x212A \<longrightarrow>
            (\<exists>x \<in> set (tolower s i). 128 \<le> x))"

text \<open>
  A Python \<open>float\<close>: a finite value, one of the two infinities, or NaN. \<open>Finite r\<close> stands
  for the float whose value is \<open>r\<close>; comparing two floats compares their values exactly,
  and every comparison with NaN is false.
\<close>

datatype pyfloat = Finite real | PosInf | NegInf | NaN

fun float_lt :: "pyfloat \<Rightarrow> pyfloat \<Rightarrow> bool" where
  "float_lt NaN y = False"
| "float_lt x NaN = False"
| "float_lt (Finite a) (Finite b) = (a < b)"
| "float_lt (Finite a) PosInf = True"
| "float_lt (Finite a) NegInf = False"
| "float_lt PosInf y = False"
| "float_lt NegInf NegInf = False"
| "float_lt NegInf y = True"

definition float_gt :: "pyfloat \<Rightarrow> pyfloat \<Rightarrow> bool" where
  "float_gt x y = float_lt y x"

fun float_eq :: "pyfloat \<Rightarrow> pyfloat \<Rightarrow> bool" where
  "float_eq NaN y = False"
| "float_eq x NaN = False"
| "float_eq x y = (x = y)"

text \<open>Instants (\<open>datetime\<close> values) are totally ordered; they are counted as integers.\<close>

type_synonym instant = int

text \<open>
  The exceptions that occur in the model. \<open>KeyboardInterrupt\<close> and \<open>SystemExit\<close> derive
  from \<open>BaseException\<close> only; the others are instances of \<open>Exception\<close>, which is what an
  \<open>except Exception\<close> clause catches. \<open>str_exn\<close> is \<open>str(e)\<close> (for a \<open>KeyError\<close>, the
  key between quotes; the keys of this program need no escaping).
\<close>

datatype exn =
    KeyError pystr
  | NameError pystr
  | OverflowError pystr
  | PyMongoError pystr
  | TwilioException pystr
  | RuntimeError pystr
  | KeyboardInterrupt
  | SystemExit

fun is_Exception :: "exn \<Rightarrow> bool" where
  "is_Exception KeyboardInterrupt = False"
| "is_Exception SystemExit = False"
| "is_Exception e = True"

fun str_exn :: "exn \<Rightarrow> pystr" where
  "str_exn (KeyError k) = [0x27] @ k @ [0x27]"
| "str_exn (NameError n) = str ''name '' @ [0x27] @ n @ [0x27] @ str '' is not defined''"
| "str_exn (OverflowError m) = m"
| "str_exn (PyMongoError m) = m"
| "str_exn (TwilioException m) = m"
| "str_exn (RuntimeError m) = m"
| "str_exn KeyboardInterrupt = []"
| "str_exn SystemExit = []"

section \<open>Stored documents\<close>

text \<open>
  A document of the \<open>messages\<close> collection, with the four keys \<open>store_message\<close> writes.
\<close>

record document =
  user_id :: pystr
  group_id :: pystr
  content :: pystr
  timestamp :: instant

section \<open>models/message.py\<close>

record message =
  sender :: pystr
  group :: pystr
  content :: pystr
  timestamp :: instant
  message_id :: "pystr option"

record nlp_result =
  entities :: "(pystr \<times> pystr) list list"
  intent :: pystr
  topics :: "pystr list"
  tokens :: "pystr list"

record sentiment_result =
  score :: pyfloat
  magnitude :: pyfloat
  is_positive :: bool
  is_negative :: bool
  is_neutral :: bool

record processed_message =
  original_message :: message
  nlp_result :: nlp_result
  sentiment :: sentiment_result
  relevant_context :: "message list"

section \<open>services/command\_handler.py\<close>

datatype handler = Help | Pause | Resume | Settings | Feedback

text \<open>
  The only attribute of a \<open>CommandHandler\<close> is the dictionary \<open>commands\<close> from command
  names to bound handler methods.
\<close>

record command_handler =
  commands :: "pystr \<rightharpoonup> handler"

definition register_default_commands :: "command_handler \<Rightarrow> command_handler" where
  "register_default_commands self =
     self\<lparr>commands := (commands self)(str ''help'' \<mapsto> Help, str ''pause'' \<mapsto> Pause,
                          str ''resume'' \<mapsto> Resume, str ''settings'' \<mapsto> Settings,
                          str ''feedback'' \<mapsto> Feedback)\<rparr>"

definition CommandHandler :: command_handler where
  "CommandHandler = register_default_commands \<lparr>commands = Map.empty\<rparr>"

text \<open>
  The five handlers. \<open>handle_help_command\<close> only binds a local string; the bodies of the
  other four are \<open>pass\<close>. None of them touches the handler object or anything else.
\<close>

definition handle_help_command :: "pystr list \<Rightarrow> message \<Rightarrow> command_handler \<Rightarrow> command_handler" where
  "handle_help_command args message self = self"

definition handle_pause_command :: "pystr list \<Rightarrow> message \<Rightarrow> command_handler \<Rightarrow> command_handler" where
  "handle_pause_command args message self = self"

definition handle_resume_command :: "pystr list \<Rightarrow> message \<Rightarrow> command_handler \<Rightarrow> command_handler" where
  "handle_resume_command args message self = self"

definition handle_settings_command :: "pystr list \<Rightarrow> message \<Rightarrow> command_handler \<Rightarrow> command_handler" where
  "handle_settings_command args message self = self"

definition handle_feedback_command :: "pystr list \<Rightarrow> message \<Rightarrow> command_handler \<Rightarrow> command_handler" where
  "handle_feedback_command args message self = self"

fun call_handler :: "handler \<Rightarrow> pystr list \<Rightarrow> message \<Rightarrow> command_handler \<Rightarrow> command_handler" where
  "call_handler Help = handle_help_command"
| "call_handler Pause = handle_pause_command"
| "call_handler Resume = handle_resume_command"
| "call_handler Settings = handle_settings_command"
| "call_handler Feedback = handle_feedback_command"

text \<open>
  \<open>process_command\<close> returns a \<open>bool\<close>. The model returns with it the handler that was
  awaited together with its arguments (if any), and the handler object afterwards. Its
  first argument is the lowercase mapping of the interpreter, which \<open>lower\<close> consults.
\<close>

definition process_command ::
  "unicode_lower \<Rightarrow> command_handler \<Rightarrow> message
     \<Rightarrow> bool \<times> (handler \<times> pystr list) option \<times> command_handler" where
  "process_command tolower self message =
     (if \<not> startswith (content message) (str ''#lovebot'') then (False, None, self)
      else
        let parts = split_space (strip (drop (length (str ''#lovebot'')) (content message)));
            command = (if parts \<noteq> [] then lower tolower (hd parts) else []);
            args = (if length parts > 1 then tl parts else [])
        in (case commands self command of
              Some h \<Rightarrow> (True, Some (h, args), call_handler h args message self)
            | None \<Rightarrow> (False, None, self)))"

section \<open>services/ai\_processor.py\<close>

text \<open>
  The modules \<open>nlp_service\<close>, \<open>sentiment_analyzer\<close> and \<open>context_manager\<close> are imported
  by \<open>ai_processor.py\<close> but are not among the sources. Their methods are fields of the
  processor: each is a function that returns a value or raises, and the context manager
  carries a state of an arbitrary type \<open>'c\<close>.
\<close>

record 'c ai_processor =
  nlp_service :: "pystr \<Rightarrow> exn + nlp_result"
  sentiment_analyzer :: "pystr \<Rightarrow> exn + sentiment_result"
  context_manager :: 'c
  update_context :: "'c \<Rightarrow> message \<Rightarrow> nlp_result \<Rightarrow> sentiment_result \<Rightarrow> exn + 'c"
  get_relevant_context :: "'c \<Rightarrow> nlp_result \<Rightarrow> exn + message list"

definition process_message ::
  "'c ai_processor \<Rightarrow> message \<Rightarrow> message list \<Rightarrow> (exn + processed_message) \<times> 'c ai_processor" where
  "process_message self message conversation_history =
     (case nlp_service self (message.content message) of
        Inl e \<Rightarrow> (Inl e, self)
      | Inr nlp \<Rightarrow>
     (case sentiment_analyzer self (message.content message) of
        Inl e \<Rightarrow> (Inl e, self)
      | Inr sent \<Rightarrow>
     (case update_context self (context_manager self) message nlp sent of
        Inl e \<Rightarrow> (Inl e, self)
      | Inr ctx \<Rightarrow>
     (let self' = self\<lparr>context_manager := ctx\<rparr>
      in case get_relevant_context self' ctx nlp of
           Inl e \<Rightarrow> (Inl e, self')
         | Inr relevant \<Rightarrow>
             (Inr \<lparr>original_message = message, nlp_result = nlp,
                   sentiment = sent, relevant_context = relevant\<rparr>, self')))))"

text \<open>
  The decision reads the score of the processed message and nothing else: no attribute
  of the processor, and no state of the conversation.
\<close>

definition determine_response_need :: "'c ai_processor \<Rightarrow> processed_message \<Rightarrow> bool" where
  "determine_response_need self processed_message =
     float_lt (score (sentiment processed_message)) (Finite (- 0.7))"

definition should_respond :: "'c ai_processor \<Rightarrow> processed_message \<Rightarrow> bool" where
  "should_respond self processed_message = determine_response_need self processed_message"

section \<open>data/database.py\<close>

text \<open>
  The database object holds the \<open>messages\<close> collection, in insertion order, and what the
  server does to the coming operations on the connection, in order: \<open>Some e\<close> when the
  operation raises \<open>e\<close> (the server cannot be reached, the write or read fails), \<open>None\<close>
  when it is carried out. Once the list is used up every operation is carried out.
\<close>

record message_database =
  connection :: "exn option list"
  messages :: "document list"

definition server_call :: "message_database \<Rightarrow> exn option \<times> message_database" where
  "server_call self =
     (case connection self of
        [] \<Rightarrow> (None, self)
      | f # fs \<Rightarrow> (f, self\<lparr>connection := fs\<rparr>))"

definition store_message :: "message_database \<Rightarrow> message \<Rightarrow> (exn + unit) \<times> message_database" where
  "store_message self message =
     (case server_call self of
        (Some e, self') \<Rightarrow> (Inl e, self')
      | (None, self') \<Rightarrow>
          (Inr (), self'\<lparr>messages := messages self' @
                 [\<lparr>user_id = sender message, group_id = group message,
                   content = message.content message,
                   timestamp = message.timestamp message\<rparr>]\<rparr>))"

text \<open>
  The three cursor operations of the driver. \<open>find\<close> with the filter
  \<open>{'group_id': g}\<close> keeps the documents whose \<open>group_id\<close> equals \<open>g\<close>;
  \<open>sort('timestamp', -1)\<close> orders by descending timestamp (the order among equal
  timestamps is not fixed by the driver; here it is the order of insertion);
  \<open>limit(n)\<close> keeps the first \<open>n\<close> documents for a positive \<open>n\<close>, means no limit at all
  for \<open>n = 0\<close>, and keeps the first \<open>|n|\<close> for a negative \<open>n\<close>. The limit travels to the
  server as a 64-bit integer: when \<open>|n|\<close> does not fit, encoding the query raises
  \<open>OverflowError\<close>.
\<close>

definition find_group_id :: "pystr \<Rightarrow> document list \<Rightarrow> document list" where
  "find_group_id g docs = filter (\<lambda>d. group_id d = g) docs"

definition sort_timestamp_desc :: "document list \<Rightarrow> document list" where
  "sort_timestamp_desc docs = sort_key (\<lambda>d. - document.timestamp d) docs"

definition limit_cursor :: "int \<Rightarrow> document list \<Rightarrow> document list" where
  "limit_cursor n docs = (if n = 0 then docs else take (nat \<bar>n\<bar>) docs)"

definition get_conversation_history ::
  "message_database \<Rightarrow> pystr \<Rightarrow> int \<Rightarrow> (exn + message list) \<times> message_database" where
  "get_conversation_history self gid limit =
     (case server_call self of
        (Some e, self') \<Rightarrow> (Inl e, self')
      | (None, self') \<Rightarrow>
          if 2 ^ 63 \<le> \<bar>limit\<bar>
          then (Inl (OverflowError (str ''MongoDB can only handle up to 8-byte ints'')), self')
          else
          (Inr (map (\<lambda>d. \<lparr>sender = user_id d, group = group_id d,
                           content = document.content d,
                           timestamp = document.timestamp d, message_id = None\<rparr>)
                  (limit_cursor limit
                     (sort_timestamp_desc (find_group_id gid (messages self'))))),
           self'))"

section \<open>integrations/whatsapp.py\<close>

text \<open>
  The levels of the \<open>logging\<close> module with their numbers. A record is emitted when its
  level is not below the effective level of the logger.
\<close>

datatype level = DEBUG | INFO | WARNING | ERROR | CRITICAL

fun levelno :: "level \<Rightarrow> nat" where
  "levelno DEBUG = 10"
| "levelno INFO = 20"
| "levelno WARNING = 30"
| "levelno ERROR = 40"
| "levelno CRITICAL = 50"

text \<open>
  The integration object: the configuration dictionary (a value is a string or Python's
  \<open>None\<close>, as \<open>os.getenv\<close> returns it), the effective level of its logger (the module
  sets none, so it is the level of the root logger, which \<open>app.py\<close> configures as
  \<open>INFO\<close>), the records the logger has emitted, and the behaviour of the client's
  \<open>messages.create(from_, body, to)\<close>, which returns the identifier of the sent message
  or raises.
\<close>

record whatsapp_integration =
  config :: "pystr \<rightharpoonup> pystr option"
  effective_level :: level
  logger :: "(level \<times> pystr) list"
  client :: "pystr \<Rightarrow> pystr \<Rightarrow> pystr \<Rightarrow> exn + pystr"

definition log_record :: "level \<Rightarrow> pystr \<Rightarrow> whatsapp_integration \<Rightarrow> whatsapp_integration" where
  "log_record lvl msg self =
     (if levelno (effective_level self) \<le> levelno lvl
      then self\<lparr>logger := logger self @ [(lvl, msg)]\<rparr>
      else self)"

text \<open>What an f-string prints for a configuration value.\<close>

fun format_value :: "pystr option \<Rightarrow> pystr" where
  "format_value None = str ''None''"
| "format_value (Some v) = v"

text \<open>
  The call of the client inside the \<open>try\<close> block of \<open>send_message\<close>: the keyword
  arguments are evaluated first, and the lookup of \<open>phone_number\<close> raises \<open>KeyError\<close>
  when the configuration has no such key.
\<close>

definition messages_create :: "whatsapp_integration \<Rightarrow> pystr \<Rightarrow> pystr \<Rightarrow> exn + pystr" where
  "messages_create self recipient message =
     (case config self (str ''phone_number'') of
        None \<Rightarrow> Inl (KeyError (str ''phone_number''))
      | Some p \<Rightarrow>
          client self (str ''whatsapp:'' @ format_value p) message (str ''whatsapp:'' @ recipient))"

text \<open>
  \<open>send_message\<close>: when the call returns, the debug record is logged and the success
  dictionary returned; the \<open>except Exception\<close> clause catches an instance of
  \<open>Exception\<close>, logs the error record and returns the error dictionary; any other
  exception leaves the method. The returned dictionary is the list of its items.
\<close>

definition send_message ::
  "whatsapp_integration \<Rightarrow> pystr \<Rightarrow> pystr
     \<Rightarrow> (exn + (pystr \<times> pystr) list) \<times> whatsapp_integration" where
  "send_message self recipient message =
     (case messages_create self recipient message of
        Inr sid \<Rightarrow>
          (Inr [(str ''status'', str ''success''), (str ''message_id'', sid)],
           log_record DEBUG (str ''Sent message to '' @ recipient @ str '': '' @ sid) self)
      | Inl e \<Rightarrow>
          if is_Exception e
          then (Inr [(str ''status'', str ''error''), (str ''error'', str_exn e)],
                log_record ERROR (str ''Failed to send message: '' @ str_exn e) self)
          else (Inl e, self))"

section \<open>app.py\<close>

record 'c lovebot =
  whatsapp :: whatsapp_integration
  ai_processor :: "'c ai_processor"
  command_handler :: command_handler
  database :: message_database

text \<open>
  The handler builds the message with \<open>timestamp=datetime.now()\<close>. The outcome of that
  expression is the argument \<open>now\<close> of the model. \<open>app.py\<close> does not import the name
  \<open>datetime\<close>: in the module as it is written the expression raises \<open>NameError\<close>, which
  is \<open>unbound_datetime\<close>, and no message is ever constructed.
\<close>

definition unbound_datetime :: "exn + instant" where
  "unbound_datetime = Inl (NameError (str ''datetime''))"

text \<open>
  The construction of the \<open>Message\<close> (lines 68 to 74). Python evaluates the keyword
  arguments from left to right, and the first one that raises ends the call.
  \<open>message_arguments\<close> is the evaluation of the first three, \<open>sender\<close>, \<open>group\<close> and
  \<open>content\<close>, which comes before \<open>datetime.now()\<close>.
\<close>

definition message_arguments :: "(pystr \<rightharpoonup> pystr) \<Rightarrow> exn + pystr \<times> pystr \<times> pystr" where
  "message_arguments message_data =
     (case message_data (str ''from'') of
        None \<Rightarrow> Inl (KeyError (str ''from''))
      | Some from \<Rightarrow>
          let conversation =
                (case message_data (str ''group_id'') of None \<Rightarrow> [] | Some g \<Rightarrow> g)
          in (case message_data (str ''body'') of
                None \<Rightarrow> Inl (KeyError (str ''body''))
              | Some body \<Rightarrow> Inr (from, conversation, body)))"

definition make_message :: "(exn + instant) \<Rightarrow> (pystr \<rightharpoonup> pystr) \<Rightarrow> exn + message" where
  "make_message now message_data =
     (case message_arguments message_data of
        Inl e \<Rightarrow> Inl e
      | Inr (from, conversation, body) \<Rightarrow>
     (case now of
        Inl e \<Rightarrow> Inl e
      | Inr t \<Rightarrow>
          Inr \<lparr>sender = from,
               group = conversation,
               content = body,
               timestamp = t,
               message_id =
                 Some (case message_data (str ''id'') of None \<Rightarrow> [] | Some i \<Rightarrow> i)\<rparr>))"

definition response :: pystr where
  "response = str ''I noticed there might be some tension. Remember to use '' @ [0x27] @
              str ''I'' @ [0x27] @ str '' statements.''"

text \<open>
  The coroutine returns \<open>None\<close> on each of its three normal exits; the model's result
  names the exit taken: the \<open>return\<close> after a command, the end of the \<open>if\<close> body after
  the reply was sent, or the end of the function when no reply is due.
\<close>

datatype path = CommandProcessed | ResponseSent | NoResponse

text \<open>
  The body of \<open>handle_message\<close> in three parts. \<open>analyse_and_respond\<close> is lines 84 to
  95: the history fetch, the analysis, the decision and the reply.
  \<open>handle_constructed\<close> is lines 76 to 82, followed by \<open>analyse_and_respond\<close>: what the
  handler does with the constructed message. \<open>handle_message\<close> is the whole handler.
\<close>

definition analyse_and_respond :: "'c lovebot \<Rightarrow> message \<Rightarrow> (exn + path) \<times> 'c lovebot" where
  "analyse_and_respond self message =
     (case get_conversation_history (database self) (group message) 50 of
        (Inl e, db) \<Rightarrow> (Inl e, self\<lparr>database := db\<rparr>)
      | (Inr history, db) \<Rightarrow>
     (let self1 = self\<lparr>database := db\<rparr>
      in case process_message (ai_processor self1) message history of
           (Inl e, ai) \<Rightarrow> (Inl e, self1\<lparr>ai_processor := ai\<rparr>)
         | (Inr processed, ai) \<Rightarrow>
     (let self2 = self1\<lparr>ai_processor := ai\<rparr>
      in if should_respond (ai_processor self2) processed
         then (case send_message (whatsapp self2) (group message) response of
                 (Inl e, w) \<Rightarrow> (Inl e, self2\<lparr>whatsapp := w\<rparr>)
               | (Inr result, w) \<Rightarrow> (Inr ResponseSent, self2\<lparr>whatsapp := w\<rparr>))
         else (Inr NoResponse, self2))))"

definition handle_constructed ::
  "unicode_lower \<Rightarrow> 'c lovebot \<Rightarrow> message \<Rightarrow> (exn + path) \<times> 'c lovebot" where
  "handle_constructed tolower self message =
     (case store_message (database self) message of
        (Inl e, db) \<Rightarrow> (Inl e, self\<lparr>database := db\<rparr>)
      | (Inr u, db) \<Rightarrow>
     (let self1 = self\<lparr>database := db\<rparr>
      in case process_command tolower (command_handler self1) message of
           (is_command, invoked, ch) \<Rightarrow>
     (let self2 = self1\<lparr>command_handler := ch\<rparr>
      in if is_command then (Inr CommandProcessed, self2)
         else analyse_and_respond self2 message)))"

definition handle_message ::
  "unicode_lower \<Rightarrow> (exn + instant) \<Rightarrow> 'c lovebot \<Rightarrow> (pystr \<rightharpoonup> pystr)
     \<Rightarrow> (exn + path) \<times> 'c lovebot" where
  "handle_message tolower now self message_data =
     (case make_message now message_data of
        Inl e \<Rightarrow> (Inl e, self)
      | Inr message \<Rightarrow> handle_constructed tolower self message)"

section \<open>The sentiment classification of the specification\<close>

text \<open>
  Modelled from the spec: \<open>SentimentAnalyzer.analyze\<close> (module
  \<open>services/sentiment_analyzer.py\<close>) is not among the sources; only the type of its
  result and its caller are. The specification derives the three booleans from the score
  and two configured thresholds: a score below the negative threshold is negative, a
  score above the positive threshold is positive, and the booleans are mutually exclusive
  and jointly exhaustive, so every other score is neutral.
\<close>

record sentiment_config =
  negativeThreshold :: real
  positiveThreshold :: real

definition analyzeSentiment_result :: "sentiment_config \<Rightarrow> pyfloat \<Rightarrow> pyfloat \<Rightarrow> sentiment_result" where
  "analyzeSentiment_result cfg s m =
     \<lparr>score = s, magnitude = m,
      is_positive = float_gt s (Finite (positiveThreshold cfg)),
      is_negative = float_lt s (Finite (negativeThreshold cfg)),
      is_neutral = (\<not> float_gt s (Finite (positiveThreshold cfg)) \<and>
                    \<not> float_lt s (Finite (negativeThreshold cfg)))\<rparr>"

text \<open>
  The thresholds lie around zero (the default is symmetric around \<open>0\<close>): the negative one
  is not above zero, the positive one not below.
\<close>

definition thresholds_around_zero :: "sentiment_config \<Rightarrow> bool" where
  "thresholds_around_zero cfg = (negativeThreshold cfg \<le> 0 \<and> 0 \<le> positiveThreshold cfg)"

definition exactly_one :: "bool \<Rightarrow> bool \<Rightarrow> bool \<Rightarrow> bool" where
  "exactly_one a b c = ((a \<and> \<not> b \<and> \<not> c) \<or> (\<not> a \<and> b \<and> \<not> c) \<or> (\<not> a \<and> \<not> b \<and> c))"

section \<open>The command syntax in the words of the specification\<close>

text \<open>
  The specification parses a command line in these steps: strip the prefix, trim the
  surrounding whitespace, split on single spaces; the first token, without regard to
  case, selects the handler and the remaining tokens are its arguments. The definitions
  below say this without the string functions of the router, for comparison with
  \<open>process_command\<close>: a content is the command \<open>name\<close> with the arguments \<open>args\<close> when it
  is the prefix, some whitespace, the tokens joined by single spaces, and some
  whitespace, where the first token spells \<open>name\<close> in letters of either case, no argument
  contains a space, and the joined tokens do not end in whitespace.
\<close>

definition spec_whitespace :: "nat \<Rightarrow> bool" where
  "spec_whitespace c =
     (c \<in> {0x09, 0x0A, 0x0B, 0x0C, 0x0D, 0x1C, 0x1D, 0x1E, 0x1F, 0x20, 0x85, 0xA0, 0x1680,
            0x2000, 0x2001, 0x2002, 0x2003, 0x2004, 0x2005, 0x2006, 0x2007, 0x2008, 0x2009,
            0x200A, 0x2028, 0x2029, 0x202F, 0x205F, 0x3000})"

text \<open>
  A character spells the lowercase letter \<open>x\<close> when it is \<open>x\<close> or its capital (32
  below); the letter \<open>k\<close> is also spelt by the Kelvin sign, whose lowercase it is.
\<close>

definition same_letter :: "nat \<Rightarrow> char \<Rightarrow> bool" where
  "same_letter c x = (c = of_char x \<or> c + 32 = of_char x \<or> (c = 0x212A \<and> x = CHR ''k''))"

fun join_space :: "pystr list \<Rightarrow> pystr" where
  "join_space [] = []"
| "join_space [x] = x"
| "join_space (x # y # ys) = x @ [32] @ join_space (y # ys)"

definition spec_command :: "pystr \<Rightarrow> string \<Rightarrow> pystr list \<Rightarrow> bool" where
  "spec_command c name args =
     (\<exists>w t r. c = str ''#lovebot'' @ w @ join_space (t # args) @ r \<and>
              list_all spec_whitespace w \<and> list_all spec_whitespace r \<and>
              list_all2 same_letter t name \<and>
              list_all (\<lambda>a. 32 \<notin> set a) args \<and>
              \<not> spec_whitespace (last (join_space (t # args))))"

text \<open>The names of the commands are written in the lowercase letters \<open>a..z\<close>.\<close>

definition lowercase_letters :: "string \<Rightarrow> bool" where
  "lowercase_letters name =
     list_all (\<lambda>x. 97 \<le> (of_char x :: nat) \<and> (of_char x :: nat) \<le> 122) name"

fun handler_name :: "handler \<Rightarrow> string" where
  "handler_name Help = ''help''"
| "handler_name Pause = ''pause''"
| "handler_name Resume = ''resume''"
| "handler_name Settings = ''settings''"
| "handler_name Feedback = ''feedback''"

section \<open>Example objects\<close>

text \<open>
  Concrete objects on which the functions are run: a lowercase mapping that leaves the
  characters it is asked about unchanged, a message, payloads with and without a group
  identifier, a stored collection, and a bot whose collaborators behave as given: the
  sentiment analyzer returns the outcome \<open>analysis\<close> for every text, the server treats
  the coming operations as \<open>conn\<close> says, and the client answers every
  \<open>messages.create\<close> with \<open>sent\<close>. The logger of the example has the level \<open>INFO\<close>, as
  \<open>app.py\<close> configures it. The context manager of the example keeps the list of the
  messages it was given.
\<close>

definition example_tolower :: unicode_lower where
  "example_tolower s i = [s ! i]"

definition text_message :: "string \<Rightarrow> string \<Rightarrow> message" where
  "text_message g c =
     \<lparr>sender = str ''+15550001'', group = str g, content = str c, timestamp = 0,
      message_id = Some []\<rparr>"

definition group_payload :: "string \<Rightarrow> string \<Rightarrow> (pystr \<rightharpoonup> pystr)" where
  "group_payload g body =
     [str ''from'' \<mapsto> str ''+15550001'', str ''group_id'' \<mapsto> str g, str ''body'' \<mapsto> str body]"

definition direct_payload :: "string \<Rightarrow> string \<Rightarrow> (pystr \<rightharpoonup> pystr)" where
  "direct_payload from body = [str ''from'' \<mapsto> str from, str ''body'' \<mapsto> str body]"

definition example_processor :: "exn + real \<Rightarrow> (message list) ai_processor" where
  "example_processor analysis =
     \<lparr>nlp_service =
        (\<lambda>c. Inr \<lparr>entities = [], intent = str ''unknown'', topics = [], tokens = []\<rparr>),
      sentiment_analyzer =
        (\<lambda>c. case analysis of
                Inl e \<Rightarrow> Inl e
              | Inr s \<Rightarrow> Inr \<lparr>score = Finite s, magnitude = Finite \<bar>s\<bar>,
                              is_positive = (0 < s), is_negative = (s < 0),
                              is_neutral = (s = 0)\<rparr>),
      context_manager = [],
      update_context = (\<lambda>ctx m n r. Inr (ctx @ [m])),
      get_relevant_context = (\<lambda>ctx n. Inr [])\<rparr>"

definition example_whatsapp :: "exn + string \<Rightarrow> whatsapp_integration" where
  "example_whatsapp sent =
     \<lparr>config = [str ''phone_number'' \<mapsto> Some (str ''+14155238886'')],
      effective_level = INFO,
      logger = [],
      client = (\<lambda>from body to. case sent of Inl e \<Rightarrow> Inl e | Inr sid \<Rightarrow> Inr (str sid))\<rparr>"

definition example_bot ::
  "exn + real \<Rightarrow> exn option list \<Rightarrow> exn + string \<Rightarrow> (message list) lovebot" where
  "example_bot analysis conn sent =
     \<lparr>whatsapp = example_whatsapp sent,
      ai_processor = example_processor analysis,
      command_handler = CommandHandler,
      database = \<lparr>connection = conn, messages = []\<rparr>\<rparr>"

definition example_documents :: "document list" where
  "example_documents =
     [\<lparr>user_id = str ''+15550001'', group_id = str ''G1'', content = str ''first'',
       timestamp = 1\<rparr>,
      \<lparr>user_id = str ''+15550002'', group_id = str ''G2'', content = str ''second'',
       timestamp = 2\<rparr>,
      \<lparr>user_id = str ''+15550002'', group_id = str ''G1'', content = str ''third'',
       timestamp = 3\<rparr>]"

definition example_config :: sentiment_config where
  "example_config = \<lparr>negativeThreshold = - 0.25, positiveThreshold = 0.25\<rparr>"

section \<open>Auxiliary facts\<close>

lemmas example_defs =
  example_bot_def example_processor_def example_whatsapp_def group_payload_def
  direct_payload_def text_message_def example_tolower_def

lemmas router_defs =
  process_command_def startswith_def strip_def isspace_def lower_def lower_at_def
  CommandHandler_def register_default_commands_def handle_help_command_def
  handle_pause_command_def handle_resume_command_def handle_settings_command_def
  handle_feedback_command_def Let_def

lemmas pipeline_defs =
  handle_message_def handle_constructed_def analyse_and_respond_def make_message_def
  message_arguments_def store_message_def server_call_def
  get_conversation_history_def find_group_id_def sort_timestamp_desc_def limit_cursor_def
  process_message_def should_respond_def determine_response_need_def send_message_def
  messages_create_def log_record_def response_def

subsection \<open>Strings\<close>

lemma isspace_spec: "isspace c = spec_whitespace c"
  unfolding isspace_def spec_whitespace_def
  by simp arith

lemma split_space_not_Nil: "split_space s \<noteq> []"
  by (induction s) (auto split: list.splits)

lemma join_space_Cons: "join_space ((c # p) # ps) = c # join_space (p # ps)"
  by (cases ps) simp_all

lemma join_split_space: "join_space (split_space s) = s"
proof (induction s)
  case Nil
  show ?case by simp
next
  case (Cons c cs)
  obtain p ps where parts: "split_space cs = p # ps"
    using split_space_not_Nil by (cases "split_space cs") auto
  show ?case
  proof (cases "c = 32")
    case True
    with Cons parts show ?thesis by simp
  next
    case False
    with Cons parts show ?thesis by (simp add: join_space_Cons)
  qed
qed

lemma split_space_no_space: "p \<in> set (split_space s) \<Longrightarrow> 32 \<notin> set p"
proof (induction s arbitrary: p)
  case Nil
  then show ?case by simp
next
  case (Cons c cs)
  obtain q qs where parts: "split_space cs = q # qs"
    using split_space_not_Nil by (cases "split_space cs") auto
  show ?case
  proof (cases "c = 32")
    case True
    with Cons show ?thesis by auto
  next
    case False
    with Cons.prems parts have "p = c # q \<or> p \<in> set qs" by auto
    with Cons.IH parts False show ?thesis by auto
  qed
qed

lemma split_space_append_space:
  "32 \<notin> set x \<Longrightarrow> split_space (x @ 32 # r) = x # split_space r"
  by (induction x) simp_all

lemma split_space_one: "32 \<notin> set x \<Longrightarrow> split_space x = [x]"
  by (induction x) simp_all

lemma split_join_space:
  "xs \<noteq> [] \<Longrightarrow> list_all (\<lambda>p. 32 \<notin> set p) xs \<Longrightarrow> split_space (join_space xs) = xs"
proof (induction xs rule: join_space.induct)
  case 1
  then show ?case by simp
next
  case (2 x)
  then show ?case by (simp add: split_space_one)
next
  case (3 x y ys)
  then show ?case by (simp add: split_space_append_space)
qed

lemma rev_dropWhile_takeWhile:
  "rev (dropWhile P (rev xs)) @ rev (takeWhile P (rev xs)) = xs"
proof -
  have "rev (dropWhile P (rev xs)) @ rev (takeWhile P (rev xs)) =
        rev (takeWhile P (rev xs) @ dropWhile P (rev xs))"
    by (simp only: rev_append)
  also have "\<dots> = rev (rev xs)"
    by (simp only: takeWhile_dropWhile_id)
  finally show ?thesis by simp
qed

lemma strip_decomposition:
  "\<exists>w r. s = w @ strip s @ r \<and> list_all isspace w \<and> list_all isspace r"
proof -
  let ?d = "dropWhile isspace s"
  let ?r = "rev (takeWhile isspace (rev ?d))"
  have d: "?d = strip s @ ?r"
    unfolding strip_def by (rule rev_dropWhile_takeWhile [symmetric])
  have "s = takeWhile isspace s @ ?d" by simp
  with d have "s = takeWhile isspace s @ strip s @ ?r" by simp
  moreover have "list_all isspace (takeWhile isspace s)"
    by (simp add: list_all_iff) (meson set_takeWhileD)
  moreover have "list_all isspace ?r"
    by (simp add: list_all_iff) (meson set_takeWhileD)
  ultimately show ?thesis by blast
qed

lemma strip_ends:
  assumes "strip s \<noteq> []"
  shows "\<not> isspace (hd (strip s))" and "\<not> isspace (last (strip s))"
proof -
  let ?d = "dropWhile isspace s"
  from assms have ne: "dropWhile isspace (rev ?d) \<noteq> []"
    by (simp add: strip_def)
  then have "\<not> isspace (hd (dropWhile isspace (rev ?d)))"
    by (rule hd_dropWhile)
  with ne show "\<not> isspace (last (strip s))"
    by (simp add: strip_def last_rev)
  have dne: "?d \<noteq> []"
  proof
    assume "?d = []"
    then have "dropWhile isspace (rev ?d) = []" by (simp only: rev.simps dropWhile.simps)
    with ne show False by contradiction
  qed
  then have nd: "\<not> isspace (hd ?d)" by (rule hd_dropWhile)
  have "?d = strip s @ rev (takeWhile isspace (rev ?d))"
    unfolding strip_def by (rule rev_dropWhile_takeWhile [symmetric])
  with assms have "hd ?d = hd (strip s)"
    by (metis hd_append2)
  with nd show "\<not> isspace (hd (strip s))" by simp
qed

lemma dropWhile_all_then:
  "list_all P w \<Longrightarrow> x \<noteq> [] \<Longrightarrow> \<not> P (hd x) \<Longrightarrow> dropWhile P (w @ x) = x"
  by (induction w) (auto simp: neq_Nil_conv)

lemma strip_exact:
  assumes "list_all isspace w" and "list_all isspace r"
    and "x \<noteq> []" and "\<not> isspace (hd x)" and "\<not> isspace (last x)"
  shows "strip (w @ x @ r) = x"
proof -
  from assms have "dropWhile isspace (w @ x @ r) = x @ r"
    by (intro dropWhile_all_then) auto
  moreover from assms have "dropWhile isspace (rev r @ rev x) = rev x"
    by (intro dropWhile_all_then) (auto simp: hd_rev)
  ultimately show ?thesis by (simp add: strip_def)
qed

lemma str_Nil [simp]: "str [] = []"
  by (simp add: str_def)

lemma str_Cons [simp]: "str (x # xs) = of_char x # str xs"
  by (simp add: str_def)

lemma str_eq_Nil [simp]: "str s = [] \<longleftrightarrow> s = []"
  by (simp add: str_def)

lemma of_char_k: "(of_char x :: nat) = 107 \<longleftrightarrow> x = CHR ''k''"
proof
  assume "(of_char x :: nat) = 107"
  then have "(of_char x :: nat) = of_char CHR ''k''" by simp
  then show "x = CHR ''k''" by (simp only: of_char_eq_iff)
qed simp

lemma lower_at_spells:
  assumes "keeps_non_ascii tolower" and "i < length s" and "s ! i = c"
    and "97 \<le> (of_char x :: nat)" and "(of_char x :: nat) \<le> 122"
    and "lowercase_letters xs"
  shows "lower_at tolower s i c @ rest = of_char x # str xs \<longleftrightarrow>
         same_letter c x \<and> rest = str xs"
proof (cases "c < 128")
  case True
  with assms(4,5) show ?thesis
    by (auto simp: lower_at_def same_letter_def)
next
  case high: False
  show ?thesis
  proof (cases "c = 0x212A")
    case True
    with assms(4,5) show ?thesis
      by (auto simp: lower_at_def same_letter_def of_char_k)
  next
    case False
    with high assms(1,2,3) obtain y where y: "y \<in> set (tolower s i)" "128 \<le> y"
      unfolding keeps_non_ascii_def by (metis not_less)
    have small: "\<forall>z \<in> set (of_char x # str xs). z \<le> 122"
      using assms(5,6) by (auto simp: lowercase_letters_def list_all_iff str_def)
    have "lower_at tolower s i c @ rest \<noteq> of_char x # str xs"
    proof
      assume eq: "lower_at tolower s i c @ rest = of_char x # str xs"
      from high False have "lower_at tolower s i c = tolower s i"
        by (simp add: lower_at_def)
      with y(1) have "y \<in> set (lower_at tolower s i c @ rest)" by simp
      with eq have "y \<in> set (of_char x # str xs)" by simp
      with small have "y \<le> 122" by blast
      with y(2) show False by simp
    qed
    moreover from high False assms(4,5) have "\<not> same_letter c x"
      by (auto simp: same_letter_def)
    ultimately show ?thesis by simp
  qed
qed

lemma lower_from_spells:
  assumes "keeps_non_ascii tolower" and "lowercase_letters name" and "drop i s = cs"
  shows "lower_from tolower s i cs = str name \<longleftrightarrow> list_all2 same_letter cs name"
  using assms(2,3)
proof (induction cs arbitrary: i name)
  case Nil
  then show ?case by (auto simp: str_def)
next
  case (Cons c cs)
  from Cons.prems(2) have i: "i < length s"
    by (metis drop_eq_Nil list.distinct(1) not_less)
  with Cons.prems(2) have c: "s ! i = c" and rest: "drop (Suc i) s = cs"
    by (metis Cons_nth_drop_Suc list.inject)+
  show ?case
  proof (cases name)
    case Nil
    have "lower_at tolower s i c \<noteq> []"
      using assms(1) i c unfolding lower_at_def keeps_non_ascii_def
      by (auto split: if_splits) (metis empty_iff empty_set not_less)
    with Nil show ?thesis by simp
  next
    case (Cons x xs)
    with Cons.prems(1) have x: "97 \<le> (of_char x :: nat)" "(of_char x :: nat) \<le> 122"
      and xs: "lowercase_letters xs"
      by (simp_all add: lowercase_letters_def)
    from Cons.IH [OF xs rest]
    have IH: "lower_from tolower s (Suc i) cs = str xs \<longleftrightarrow> list_all2 same_letter cs xs" .
    from lower_at_spells [OF assms(1) i c x xs] IH Cons
    show ?thesis by simp
  qed
qed

lemma lower_spells:
  assumes "keeps_non_ascii tolower" and "lowercase_letters name"
  shows "lower tolower t = str name \<longleftrightarrow> list_all2 same_letter t name"
  unfolding lower_def using assms by (intro lower_from_spells) simp_all

lemma lowercase_letters_handler_name: "lowercase_letters (handler_name h)"
  by (cases h) (simp_all add: lowercase_letters_def)

lemma same_letter_not_space:
  assumes "same_letter c x" and "97 \<le> (of_char x :: nat)" and "(of_char x :: nat) \<le> 122"
  shows "c \<noteq> 32" and "\<not> isspace c"
  using assms by (auto simp: same_letter_def isspace_def)

subsection \<open>The command router\<close>

lemma commands_CommandHandler:
  "commands CommandHandler c =
     (if c = str ''feedback'' then Some Feedback
      else if c = str ''settings'' then Some Settings
      else if c = str ''resume'' then Some Resume
      else if c = str ''pause'' then Some Pause
      else if c = str ''help'' then Some Help
      else None)"
  by (simp add: CommandHandler_def register_default_commands_def)

lemma commands_CommandHandler_Some:
  "commands CommandHandler c = Some h \<longleftrightarrow> c = str (handler_name h)"
  by (cases h) (auto simp: commands_CommandHandler)

lemma call_handler_self: "call_handler h args m ch = ch"
  by (cases h)
     (simp_all add: handle_help_command_def handle_pause_command_def
        handle_resume_command_def handle_settings_command_def handle_feedback_command_def)

lemma process_command_self: "snd (snd (process_command tolower ch m)) = ch"
  by (simp add: process_command_def Let_def call_handler_self split: option.splits)

lemma process_command_bool:
  "fst (process_command tolower ch m) \<longleftrightarrow> fst (snd (process_command tolower ch m)) \<noteq> None"
  by (simp add: process_command_def Let_def split: option.splits)

lemma join_space_first: "join_space (t # ts) = t @ (if ts = [] then [] else 32 # join_space ts)"
  by (cases ts) simp_all

lemma same_letters_plain:
  assumes "list_all2 same_letter t name" and "lowercase_letters name"
  shows "32 \<notin> set t" and "name \<noteq> [] \<Longrightarrow> t \<noteq> [] \<and> \<not> isspace (hd t)"
proof -
  from assms(1) have "\<forall>c \<in> set t. \<exists>x \<in> set name. same_letter c x"
    by (induction rule: list_all2_induct) auto
  with assms(2) have each: "\<forall>c \<in> set t. \<exists>x. same_letter c x \<and>
      97 \<le> (of_char x :: nat) \<and> (of_char x :: nat) \<le> 122"
    unfolding lowercase_letters_def list_all_iff by blast
  then show "32 \<notin> set t"
    using same_letter_not_space(1) by blast
  assume "name \<noteq> []"
  with assms(1) have ne: "t \<noteq> []" by auto
  then have "hd t \<in> set t" by simp
  with each same_letter_not_space(2) have "\<not> isspace (hd t)" by blast
  with ne show "t \<noteq> [] \<and> \<not> isspace (hd t)" by simp
qed

lemma handler_name_not_Nil: "handler_name h \<noteq> []"
  by (cases h) simp_all

lemma startswith_append: "startswith (p @ r) p"
  by (simp add: startswith_def)

lemma startswith_split: "startswith c p \<Longrightarrow> c = p @ drop (length p) c"
  by (metis append_take_drop_id startswith_def)

lemma process_command_parts:
  assumes "startswith (message.content m) (str ''#lovebot'')"
    and "split_space (strip (drop (length (str ''#lovebot'')) (message.content m))) = t # ts"
  shows "process_command tolower ch m =
           (case commands ch (lower tolower t) of
              Some h \<Rightarrow> (True, Some (h, ts), ch)
            | None \<Rightarrow> (False, None, ch))"
proof -
  have "(if 1 < length (t # ts) then tl (t # ts) else []) = ts"
    by (cases ts) simp_all
  with assms show ?thesis
    by (simp add: process_command_def call_handler_self split: option.splits)
qed

lemma process_command_dispatch:
  assumes "keeps_non_ascii tolower"
  shows "fst (snd (process_command tolower CommandHandler m)) = Some (h, args) \<longleftrightarrow>
         spec_command (message.content m) (handler_name h) args"
proof
  assume run: "fst (snd (process_command tolower CommandHandler m)) = Some (h, args)"
  let ?c = "message.content m"
  let ?s = "drop (length (str ''#lovebot'')) ?c"
  from run have prefix: "startswith ?c (str ''#lovebot'')"
    by (auto simp: process_command_def split: if_splits)
  obtain t ts where parts: "split_space (strip ?s) = t # ts"
    using split_space_not_Nil by (cases "split_space (strip ?s)") auto
  from run process_command_parts [OF prefix parts, of tolower CommandHandler]
  have found: "commands CommandHandler (lower tolower t) = Some h" and args: "args = ts"
    by (auto split: option.splits)
  from found have "lower tolower t = str (handler_name h)"
    by (simp only: commands_CommandHandler_Some)
  then have spelt: "list_all2 same_letter t (handler_name h)"
    using lower_spells [OF assms lowercase_letters_handler_name] by blast
  have joined: "join_space (t # ts) = strip ?s"
    using join_split_space [of "strip ?s"] parts by simp
  from spelt handler_name_not_Nil [of h] have "t \<noteq> []" by auto
  then have "join_space (t # ts) \<noteq> []"
    by (simp add: join_space_first)
  with joined have "strip ?s \<noteq> []" by simp
  then have "\<not> isspace (last (strip ?s))" by (rule strip_ends)
  with joined have last: "\<not> spec_whitespace (last (join_space (t # ts)))"
    by (simp add: isspace_spec)
  have plain: "list_all (\<lambda>a. 32 \<notin> set a) ts"
    using split_space_no_space [of _ "strip ?s"] parts by (simp add: list_all_iff)
  obtain w r where decomposition: "?s = w @ strip ?s @ r"
    and w: "list_all isspace w" and r: "list_all isspace r"
    using strip_decomposition by blast
  from prefix have "?c = str ''#lovebot'' @ ?s" by (rule startswith_split)
  with decomposition joined have "?c = str ''#lovebot'' @ w @ join_space (t # ts) @ r"
    by simp
  moreover from w r have "list_all spec_whitespace w" "list_all spec_whitespace r"
    by (simp_all add: list_all_iff isspace_spec)
  ultimately show "spec_command ?c (handler_name h) args"
    unfolding spec_command_def using spelt plain last args by blast
next
  assume "spec_command (message.content m) (handler_name h) args"
  then obtain w t r where c: "message.content m = str ''#lovebot'' @ w @ join_space (t # args) @ r"
    and w: "list_all spec_whitespace w" and r: "list_all spec_whitespace r"
    and spelt: "list_all2 same_letter t (handler_name h)"
    and plain: "list_all (\<lambda>a. 32 \<notin> set a) args"
    and last: "\<not> spec_whitespace (last (join_space (t # args)))"
    unfolding spec_command_def by blast
  let ?x = "join_space (t # args)"
  from same_letters_plain [OF spelt lowercase_letters_handler_name] handler_name_not_Nil [of h]
  have t: "32 \<notin> set t" "t \<noteq> []" "\<not> isspace (hd t)" by simp_all
  then have x: "?x \<noteq> []" "hd ?x = hd t"
    by (simp_all add: join_space_first)
  from c have prefix: "startswith (message.content m) (str ''#lovebot'')"
    by (simp only: startswith_append)
  from c have "drop (length (str ''#lovebot'')) (message.content m) = w @ ?x @ r"
    by simp
  moreover have "strip (w @ ?x @ r) = ?x"
    using w r x t(3) last by (intro strip_exact) (simp_all add: list_all_iff isspace_spec)
  moreover have "split_space ?x = t # args"
    using t(1) plain by (intro split_join_space) simp_all
  ultimately have parts:
    "split_space (strip (drop (length (str ''#lovebot'')) (message.content m))) = t # args"
    by simp
  from spelt have "lower tolower t = str (handler_name h)"
    using lower_spells [OF assms lowercase_letters_handler_name] by blast
  then have "commands CommandHandler (lower tolower t) = Some h"
    by (simp only: commands_CommandHandler_Some)
  with process_command_parts [OF prefix parts, of tolower CommandHandler]
  show "fst (snd (process_command tolower CommandHandler m)) = Some (h, args)"
    by simp
qed

lemma handler_names: "(\<exists>h. name = handler_name h) \<longleftrightarrow>
    name \<in> {''help'', ''pause'', ''resume'', ''settings'', ''feedback''}"
proof
  assume "\<exists>h. name = handler_name h"
  then obtain h where "name = handler_name h" ..
  then show "name \<in> {''help'', ''pause'', ''resume'', ''settings'', ''feedback''}"
    by (cases h) simp_all
next
  assume "name \<in> {''help'', ''pause'', ''resume'', ''settings'', ''feedback''}"
  then consider "name = handler_name Help" | "name = handler_name Pause"
    | "name = handler_name Resume" | "name = handler_name Settings"
    | "name = handler_name Feedback"
    by auto
  then show "\<exists>h. name = handler_name h" by cases blast+
qed

lemma process_command_accepts:
  assumes "keeps_non_ascii tolower"
  shows "fst (process_command tolower CommandHandler m) \<longleftrightarrow>
         (\<exists>name \<in> {''help'', ''pause'', ''resume'', ''settings'', ''feedback''}.
            \<exists>args. spec_command (message.content m) name args)"
proof -
  have "fst (process_command tolower CommandHandler m) \<longleftrightarrow>
        (\<exists>h args. fst (snd (process_command tolower CommandHandler m)) = Some (h, args))"
    by (auto simp: process_command_bool)
  also have "\<dots> \<longleftrightarrow> (\<exists>h args. spec_command (message.content m) (handler_name h) args)"
    by (simp only: process_command_dispatch [OF assms])
  also have "\<dots> \<longleftrightarrow> (\<exists>name \<in> {''help'', ''pause'', ''resume'', ''settings'', ''feedback''}.
            \<exists>args. spec_command (message.content m) name args)"
    using handler_names by (metis (no_types, lifting))
  finally show ?thesis .
qed

lemma keeps_non_ascii_example: "keeps_non_ascii example_tolower"
  by (simp add: keeps_non_ascii_def example_tolower_def)

subsection \<open>The moderation decision\<close>

lemma should_respond_iff:
  "should_respond self p \<longleftrightarrow> float_lt (score (sentiment p)) (Finite (- 0.7))"
  by (simp add: should_respond_def determine_response_need_def)

text \<open>
  The literal \<open>-0.7\<close> of the source denotes the binary64 number
  \<open>-6305039478318694 / 2^53\<close>, not the real number \<open>-7/10\<close>. Every binary64 number
  at or below \<open>-1/2\<close> is a multiple of \<open>2^-53\<close>, and for such a score the comparison
  with the literal and the comparison with \<open>-7/10\<close> agree; a score above \<open>-1/2\<close> is
  below neither. So the threshold is written \<open>Finite (- 0.7)\<close> in
  \<open>determine_response_need\<close>.
\<close>

lemma literal_threshold_exact:
  "(real_of_int k / 2 ^ 53 < - 6305039478318694 / 2 ^ 53) \<longleftrightarrow>
   (real_of_int k / 2 ^ 53 < - 0.7)"
proof -
  have a: "(real_of_int k / 2 ^ 53 < - 6305039478318694 / 2 ^ 53) \<longleftrightarrow>
        real_of_int k < real_of_int (- 6305039478318694)"
    by (simp add: divide_less_cancel)
  have b: "(real_of_int k / 2 ^ 53 < - 0.7) \<longleftrightarrow>
        real_of_int (k * 10) < real_of_int (- 63050394783186944)"
    by (simp add: field_simps)
  have c: "k * 10 < - 63050394783186944 \<longleftrightarrow> k < - 6305039478318694"
    by presburger
  show ?thesis
    unfolding a b of_int_less_iff c ..
qed

lemma literal_threshold_above_half:
  "- (1 / 2) < (x :: real) \<Longrightarrow>
     \<not> x < - 6305039478318694 / 2 ^ 53 \<and> \<not> x < - 0.7"
  by simp

subsection \<open>The transport\<close>


lemma log_record_disabled:
  "levelno lvl < levelno (effective_level self) \<Longrightarrow> log_record lvl msg self = self"
  by (simp add: log_record_def)

lemma send_message_returns:
  "messages_create self recipient text = Inr sid \<Longrightarrow>
     send_message self recipient text =
       (Inr [(str ''status'', str ''success''), (str ''message_id'', sid)],
        log_record DEBUG (str ''Sent message to '' @ recipient @ str '': '' @ sid) self)"
  by (simp add: send_message_def)



subsection \<open>The message store\<close>

lemma store_message_fails:
  "fst (store_message db m) = Inl e \<Longrightarrow> messages (snd (store_message db m)) = messages db"
  by (auto simp: store_message_def server_call_def split: list.splits option.splits)

lemma sorted_sort_timestamp_desc:
  "sorted_wrt (\<lambda>a b. document.timestamp b \<le> document.timestamp a) (sort_timestamp_desc docs)"
proof -
  have "sorted (map (\<lambda>d. - document.timestamp d) (sort_timestamp_desc docs))"
    unfolding sort_timestamp_desc_def by (rule sorted_sort_key)
  then show ?thesis
    by (simp add: sorted_map)
qed

lemma set_sort_timestamp_desc: "set (sort_timestamp_desc docs) = set docs"
  by (simp add: sort_timestamp_desc_def)

text \<open>
  While the server answers: for a limit from \<open>1\<close> up to the largest 64-bit integer the
  history has at most \<open>limit\<close> messages, all of the requested conversation, newest
  first.
\<close>

lemma history_positive_limit:
  assumes "fst (server_call self) = None" and "0 < limit" and "limit < 2 ^ 63"
  shows "\<exists>msgs. fst (get_conversation_history self gid limit) = Inr msgs \<and>
           int (length msgs) \<le> limit \<and> (\<forall>m \<in> set msgs. group m = gid) \<and>
           sorted_wrt (\<lambda>a b. message.timestamp b \<le> message.timestamp a) msgs"
proof -
  let ?docs = "take (nat limit)
                 (sort_timestamp_desc (find_group_id gid (messages (snd (server_call self)))))"
  let ?conv = "\<lambda>d. \<lparr>sender = user_id d, group = group_id d, content = document.content d,
                     timestamp = document.timestamp d, message_id = None\<rparr>"
  let ?msgs = "map ?conv ?docs"
  from assms have run: "fst (get_conversation_history self gid limit) = Inr ?msgs"
    by (auto simp: get_conversation_history_def limit_cursor_def
        split: prod.splits option.splits)
  have len: "int (length ?msgs) \<le> limit"
    using assms(2) by simp
  have "set ?docs \<subseteq> set (find_group_id gid (messages (snd (server_call self))))"
    using set_take_subset set_sort_timestamp_desc by fastforce
  then have grp: "\<forall>m \<in> set ?msgs. group m = gid"
    by (auto simp: find_group_id_def)
  have "sorted_wrt (\<lambda>a b. document.timestamp b \<le> document.timestamp a) ?docs"
    by (rule sorted_wrt_take) (rule sorted_sort_timestamp_desc)
  then have srt: "sorted_wrt (\<lambda>a b. message.timestamp b \<le> message.timestamp a) ?msgs"
    by (simp add: sorted_wrt_map)
  from run len grp srt show ?thesis by blast
qed

text \<open>
  While the server answers, a conversation without stored messages has the empty
  history, not an error.
\<close>

lemma history_unknown_conversation:
  assumes "fst (server_call self) = None" and "\<bar>limit\<bar> < 2 ^ 63"
    and "\<forall>d \<in> set (messages self). group_id d \<noteq> gid"
  shows "fst (get_conversation_history self gid limit) = Inr []"
  using assms
  by (auto simp: get_conversation_history_def server_call_def limit_cursor_def
      sort_timestamp_desc_def find_group_id_def
      split: prod.splits option.splits list.splits)

subsection \<open>The orchestrator\<close>


lemma handle_constructed_store_fails:
  assumes "fst (store_message (database self) m) = Inl e"
  shows "handle_constructed tolower self m =
           (Inl e, self\<lparr>database := snd (store_message (database self) m)\<rparr>)"
  using assms by (cases "store_message (database self) m") (simp add: handle_constructed_def)

lemma handle_constructed_routes:
  assumes "store_message (database self) m = (Inr (), db)"
  shows "handle_constructed tolower self m =
           (if fst (process_command tolower (command_handler self) m)
            then (Inr CommandProcessed, self\<lparr>database := db\<rparr>)
            else analyse_and_respond (self\<lparr>database := db\<rparr>) m)"
proof -
  obtain b d ch where run: "process_command tolower (command_handler self) m = (b, d, ch)"
    by (cases "process_command tolower (command_handler self) m")
  with process_command_self [of tolower "command_handler self" m]
  have "ch = command_handler self" by simp
  with assms run show ?thesis
    by (simp add: handle_constructed_def)
qed

section \<open>The command router\<close>

text \<open>
  C4. For every message, \<open>process_command\<close> of the default command handler returns true
  exactly when the content begins with \<open>#lovebot\<close> and the first token after stripping
  the prefix, trimming whitespace, splitting on single spaces and lowercasing is one of
  help, pause, resume, settings, feedback; it then awaits the handler of that name with
  the remaining tokens as arguments, and awaits no handler otherwise. The parsing is
  stated in the words of the specification (\<open>spec_command\<close>), for strings of any
  Unicode characters; what is used of the lowercase mapping of the interpreter is
  \<open>keeps_non_ascii\<close>. For \<open>#lovebot frobnicate\<close> the router returns false; for
  \<open>#lovebot  HELP me  now\<close> it awaits the help handler with the arguments \<open>me\<close>, the
  empty string and \<open>now\<close>. In the body of \<open>handle_message\<close> (lines 79 to 82), once the
  message is stored, a true return ends the handler and a false return leads on to the
  history fetch and the analysis.
\<close>

theorem process_command_recognised:
  assumes "keeps_non_ascii tolower"
  shows
  "(fst (process_command tolower CommandHandler m) \<longleftrightarrow>
      (\<exists>name \<in> {''help'', ''pause'', ''resume'', ''settings'', ''feedback''}.
         \<exists>args. spec_command (message.content m) name args)) \<and>
   (fst (snd (process_command tolower CommandHandler m)) = Some (h, args) \<longleftrightarrow>
      spec_command (message.content m) (handler_name h) args) \<and>
   (fst (snd (process_command tolower CommandHandler m)) = None \<longleftrightarrow>
      \<not> fst (process_command tolower CommandHandler m)) \<and>
   process_command tolower CommandHandler (text_message ''G1'' ''#lovebot frobnicate'') =
      (False, None, CommandHandler) \<and>
   process_command tolower CommandHandler (text_message ''G1'' ''#lovebot  HELP me  now'') =
      (True, Some (Help, [str ''me'', [], str ''now'']), CommandHandler) \<and>
   (store_message (database self) m' = (Inr (), db) \<longrightarrow>
      handle_constructed tolower self m' =
        (if fst (process_command tolower (command_handler self) m')
         then (Inr CommandProcessed, self\<lparr>database := db\<rparr>)
         else analyse_and_respond (self\<lparr>database := db\<rparr>) m'))"
proof (intro conjI impI)
  show "fst (process_command tolower CommandHandler m) \<longleftrightarrow>
      (\<exists>name \<in> {''help'', ''pause'', ''resume'', ''settings'', ''feedback''}.
         \<exists>args. spec_command (message.content m) name args)"
    using assms by (rule process_command_accepts)
  show "fst (snd (process_command tolower CommandHandler m)) = Some (h, args) \<longleftrightarrow>
      spec_command (message.content m) (handler_name h) args"
    using assms by (rule process_command_dispatch)
  show "fst (snd (process_command tolower CommandHandler m)) = None \<longleftrightarrow>
      \<not> fst (process_command tolower CommandHandler m)"
    using process_command_bool [of tolower CommandHandler m] by blast
  show "process_command tolower CommandHandler (text_message ''G1'' ''#lovebot frobnicate'') =
      (False, None, CommandHandler)"
    by (simp add: router_defs example_defs)
  show "process_command tolower CommandHandler (text_message ''G1'' ''#lovebot  HELP me  now'') =
      (True, Some (Help, [str ''me'', [], str ''now'']), CommandHandler)"
    by (simp add: router_defs example_defs)
next
  assume "store_message (database self) m' = (Inr (), db)"
  then show "handle_constructed tolower self m' =
        (if fst (process_command tolower (command_handler self) m')
         then (Inr CommandProcessed, self\<lparr>database := db\<rparr>)
         else analyse_and_respond (self\<lparr>database := db\<rparr>) m')"
    by (rule handle_constructed_routes)
qed

theorem process_command_recognised_witness:
  "keeps_non_ascii example_tolower \<and>
   process_command example_tolower CommandHandler
     ((text_message ''G1'' [])\<lparr>content := str ''#lovebot Feedbac'' @ [0x212A] @ str '' slow''\<rparr>) =
     (True, Some (Feedback, [str ''slow'']), CommandHandler) \<and>
   spec_command (str ''#lovebot Feedbac'' @ [0x212A] @ str '' slow'') ''feedback'' [str ''slow''] \<and>
   store_message (database (example_bot (Inr 0) [] (Inr ''SM1'')))
       (text_message ''G1'' ''#lovebot frobnicate'') =
     (Inr (), \<lparr>connection = [], messages =
        [\<lparr>user_id = str ''+15550001'', group_id = str ''G1'',
          content = str ''#lovebot frobnicate'', timestamp = 0\<rparr>]\<rparr>) \<and>
   handle_constructed example_tolower (example_bot (Inr 0) [] (Inr ''SM1''))
       (text_message ''G1'' ''#lovebot frobnicate'') =
     analyse_and_respond
       ((example_bot (Inr 0) [] (Inr ''SM1''))\<lparr>database := \<lparr>connection = [], messages =
          [\<lparr>user_id = str ''+15550001'', group_id = str ''G1'',
            content = str ''#lovebot frobnicate'', timestamp = 0\<rparr>]\<rparr>\<rparr>)
       (text_message ''G1'' ''#lovebot frobnicate'')"
proof -
  let ?kelvin = "(text_message ''G1'' [])\<lparr>content :=
      str ''#lovebot Feedbac'' @ [0x212A] @ str '' slow''\<rparr>"
  let ?frob = "text_message ''G1'' ''#lovebot frobnicate''"
  let ?bot = "example_bot (Inr 0) [] (Inr ''SM1'') :: (message list) lovebot"
  let ?db = "\<lparr>connection = [], messages =
        [\<lparr>user_id = str ''+15550001'', group_id = str ''G1'',
          content = str ''#lovebot frobnicate'', timestamp = 0\<rparr>]\<rparr>"
  note K = keeps_non_ascii_example
  have run: "process_command example_tolower CommandHandler ?kelvin =
     (True, Some (Feedback, [str ''slow'']), CommandHandler)"
    by (simp add: router_defs example_defs)
  have stored: "store_message (database ?bot) ?frob = (Inr (), ?db)"
    by (simp add: store_message_def server_call_def example_defs)
  have plain: "\<not> fst (process_command example_tolower (command_handler ?bot) ?frob)"
    by (simp add: router_defs example_defs)
  have "fst (snd (process_command example_tolower CommandHandler ?kelvin)) =
          Some (Feedback, [str ''slow'']) \<longleftrightarrow>
        spec_command (message.content ?kelvin) (handler_name Feedback) [str ''slow'']"
    by (rule process_command_recognised [OF K, THEN conjunct2, THEN conjunct1])
  with run have "spec_command (message.content ?kelvin) (handler_name Feedback) [str ''slow'']"
    by (simp only: fst_conv snd_conv simp_thms)
  then have spec: "spec_command (str ''#lovebot Feedbac'' @ [0x212A] @ str '' slow'') ''feedback''
      [str ''slow'']"
    by (simp only: text_message_def message.simps handler_name.simps)
  have "store_message (database ?bot) ?frob = (Inr (), ?db) \<longrightarrow>
        handle_constructed example_tolower ?bot ?frob =
        (if fst (process_command example_tolower (command_handler ?bot) ?frob)
         then (Inr CommandProcessed, ?bot\<lparr>database := ?db\<rparr>)
         else analyse_and_respond (?bot\<lparr>database := ?db\<rparr>) ?frob)"
    by (rule process_command_recognised [OF K, THEN conjunct2, THEN conjunct2, THEN conjunct2,
          THEN conjunct2, THEN conjunct2])
  from this stored have "handle_constructed example_tolower ?bot ?frob =
        (if fst (process_command example_tolower (command_handler ?bot) ?frob)
         then (Inr CommandProcessed, ?bot\<lparr>database := ?db\<rparr>)
         else analyse_and_respond (?bot\<lparr>database := ?db\<rparr>) ?frob)"
    by (rule mp)
  with plain have routed: "handle_constructed example_tolower ?bot ?frob =
      analyse_and_respond (?bot\<lparr>database := ?db\<rparr>) ?frob"
    by (simp only: if_False)
  from K run spec stored routed show ?thesis by blast
qed

text \<open>
  C10. The prefix is matched case-sensitively and needs no separator before the command
  token: \<open>#lovebothelp\<close> is dispatched as the help command (without arguments) and
  \<open>process_command\<close> returns true; \<open>#Lovebot help\<close> is not a command, and the
  orchestrator goes on to its analysis; a bare \<open>#lovebot\<close> returns false.
\<close>

theorem command_prefix_examples:
  "process_command tolower CommandHandler (text_message ''G1'' ''#lovebothelp'') =
      (True, Some (Help, []), CommandHandler) \<and>
   process_command tolower CommandHandler (text_message ''G1'' ''#Lovebot help'') =
      (False, None, CommandHandler) \<and>
   process_command tolower CommandHandler (text_message ''G1'' ''#lovebot'') =
      (False, None, CommandHandler) \<and>
   fst (handle_message tolower (Inr 1) (example_bot (Inr 0) [] (Inr ''SM1''))
          (group_payload ''G1'' ''#lovebothelp'')) = Inr CommandProcessed \<and>
   fst (handle_message tolower (Inr 1) (example_bot (Inr 0) [] (Inr ''SM1''))
          (group_payload ''G1'' ''#Lovebot help'')) = Inr NoResponse \<and>
   map message.content
     (context_manager (ai_processor (snd (handle_message tolower (Inr 1)
        (example_bot (Inr 0) [] (Inr ''SM1''))
        (group_payload ''G1'' ''#Lovebot help''))))) = [str ''#Lovebot help'']"
  by (simp add: pipeline_defs router_defs example_defs)

section \<open>The moderation decision\<close>

text \<open>
  C5. The comparison with the threshold is strict: for a processed message whose
  sentiment score is exactly \<open>-0.7\<close>, \<open>should_respond\<close> returns false, and for a score of
  \<open>-0.71\<close> it returns true (whatever the state of the conversation).
\<close>

theorem should_respond_threshold_strict:
  "\<not> should_respond self (p\<lparr>sentiment := (sentiment p)\<lparr>score := Finite (- 0.7)\<rparr>\<rparr>) \<and>
   should_respond self (p\<lparr>sentiment := (sentiment p)\<lparr>score := Finite (- 0.71)\<rparr>\<rparr>)"
  by (simp add: should_respond_iff)

text \<open>
  C1. The claim: \<open>should_respond\<close> is true exactly when the score is strictly below
  \<open>-0.7\<close> and the conversation is not paused; after \<open>#lovebot pause\<close> in a conversation
  a message of that conversation with score \<open>-0.9\<close> yields false. The code at that
  input: the pause command is recognised and its handler awaited, the handler leaves the
  command handler as it was, \<open>should_respond\<close> is true for every processed message
  with score \<open>-0.9\<close>, and the orchestrator, given the pause command and then a message
  of the same conversation that is scored \<open>-0.9\<close>, sends the reply.
\<close>

theorem pause_command_does_not_suppress:
  "process_command tolower CommandHandler (text_message ''G1'' ''#lovebot pause'') =
      (True, Some (Pause, []), CommandHandler) \<and>
   should_respond self (p\<lparr>sentiment := (sentiment p)\<lparr>score := Finite (- 0.9)\<rparr>\<rparr>) \<and>
   fst (handle_message tolower (Inr 1) (example_bot (Inr (- 0.9)) [] (Inr ''SM1''))
          (group_payload ''G1'' ''#lovebot pause'')) = Inr CommandProcessed \<and>
   fst (handle_message tolower (Inr 2)
          (snd (handle_message tolower (Inr 1) (example_bot (Inr (- 0.9)) [] (Inr ''SM1''))
                  (group_payload ''G1'' ''#lovebot pause'')))
          (group_payload ''G1'' ''you never listen'')) = Inr ResponseSent"
proof (intro conjI)
  show "process_command tolower CommandHandler (text_message ''G1'' ''#lovebot pause'') =
      (True, Some (Pause, []), CommandHandler)"
    by (simp add: router_defs example_defs)
  show "should_respond self (p\<lparr>sentiment := (sentiment p)\<lparr>score := Finite (- 0.9)\<rparr>\<rparr>)"
    by (simp add: should_respond_iff)
  show "fst (handle_message tolower (Inr 1) (example_bot (Inr (- 0.9)) [] (Inr ''SM1''))
          (group_payload ''G1'' ''#lovebot pause'')) = Inr CommandProcessed"
    by (simp add: pipeline_defs router_defs example_defs)
  show "fst (handle_message tolower (Inr 2)
          (snd (handle_message tolower (Inr 1) (example_bot (Inr (- 0.9)) [] (Inr ''SM1''))
                  (group_payload ''G1'' ''#lovebot pause'')))
          (group_payload ''G1'' ''you never listen'')) = Inr ResponseSent"
    by (simp add: pipeline_defs router_defs example_defs)
qed

section \<open>The sentiment classification\<close>

text \<open>
  C6. For every sentiment analysis result, exactly one of \<open>is_positive\<close>,
  \<open>is_negative\<close>, \<open>is_neutral\<close> is true, consistently with the score and the configured
  thresholds: a score equal to \<open>0\<close> is neutral, a score below the negative threshold
  is negative, a score above the positive threshold is positive. (Stated for the
  classification of the specification, with thresholds lying around zero.)
\<close>

theorem sentiment_classification_exclusive:
  assumes "thresholds_around_zero cfg"
  shows "exactly_one (is_positive (analyzeSentiment_result cfg s m))
                     (is_negative (analyzeSentiment_result cfg s m))
                     (is_neutral (analyzeSentiment_result cfg s m)) \<and>
         (float_eq s (Finite 0) \<longrightarrow> is_neutral (analyzeSentiment_result cfg s m)) \<and>
         (float_lt s (Finite (negativeThreshold cfg))
            \<longrightarrow> is_negative (analyzeSentiment_result cfg s m)) \<and>
         (float_gt s (Finite (positiveThreshold cfg))
            \<longrightarrow> is_positive (analyzeSentiment_result cfg s m))"
  using assms
  by (cases s)
     (auto simp: analyzeSentiment_result_def exactly_one_def thresholds_around_zero_def
        float_gt_def)

theorem sentiment_classification_exclusive_witness:
  "thresholds_around_zero example_config \<and>
   float_lt (Finite (- 0.9)) (Finite (negativeThreshold example_config)) \<and>
   exactly_one (is_positive (analyzeSentiment_result example_config (Finite (- 0.9)) (Finite 0.9)))
               (is_negative (analyzeSentiment_result example_config (Finite (- 0.9)) (Finite 0.9)))
               (is_neutral (analyzeSentiment_result example_config (Finite (- 0.9)) (Finite 0.9))) \<and>
   is_negative (analyzeSentiment_result example_config (Finite (- 0.9)) (Finite 0.9)) \<and>
   float_eq (Finite 0) (Finite 0) \<and>
   is_neutral (analyzeSentiment_result example_config (Finite 0) (Finite 0)) \<and>
   float_gt (Finite 0.5) (Finite (positiveThreshold example_config)) \<and>
   is_positive (analyzeSentiment_result example_config (Finite 0.5) (Finite 0.5))"
proof -
  have cfg: "thresholds_around_zero example_config"
    by (simp add: thresholds_around_zero_def example_config_def)
  have neg: "float_lt (Finite (- 0.9)) (Finite (negativeThreshold example_config))"
    by (simp add: example_config_def)
  have zero: "float_eq (Finite 0) (Finite 0)"
    by simp
  have pos: "float_gt (Finite 0.5) (Finite (positiveThreshold example_config))"
    by (simp add: example_config_def float_gt_def)
  show ?thesis
    using cfg neg zero pos
      sentiment_classification_exclusive [OF cfg, of "Finite (- 0.9)" "Finite 0.9"]
      sentiment_classification_exclusive [OF cfg, of "Finite 0" "Finite 0"]
      sentiment_classification_exclusive [OF cfg, of "Finite 0.5" "Finite 0.5"]
    by blast
qed

section \<open>The transport\<close>

text \<open>
  C9. The claim: for every recipient and text, \<open>send_message\<close> never raises; it always
  returns a success record with the external message identifier or a failure record
  with the reason. What the code does, for every recipient and text: when the
  configuration has a \<open>phone_number\<close> and the client returns the identifier \<open>sid\<close>, the
  result is the success record carrying that \<open>sid\<close>; when the client raises an instance
  \<open>e\<close> of \<open>Exception\<close>, or the configuration has no \<open>phone_number\<close> (a \<open>KeyError\<close>), the
  result is the failure record carrying \<open>str(e)\<close> and the logger is given the record
  \<open>Failed to send message: str(e)\<close> at level \<open>ERROR\<close>; when the client raises an exception
  that is not an instance of \<open>Exception\<close>, \<open>send_message\<close> raises it and logs nothing.
  The debug record of a successful send is not emitted by a logger of level \<open>INFO\<close>.
\<close>

theorem send_message_result:
  "(config self (str ''phone_number'') = Some p \<and>
    client self (str ''whatsapp:'' @ format_value p) text (str ''whatsapp:'' @ recipient) = Inr sid
      \<longrightarrow> send_message self recipient text =
            (Inr [(str ''status'', str ''success''), (str ''message_id'', sid)],
             log_record DEBUG (str ''Sent message to '' @ recipient @ str '': '' @ sid) self)) \<and>
   (config self (str ''phone_number'') = Some p \<and>
    client self (str ''whatsapp:'' @ format_value p) text (str ''whatsapp:'' @ recipient) = Inl e \<and>
    is_Exception e
      \<longrightarrow> send_message self recipient text =
            (Inr [(str ''status'', str ''error''), (str ''error'', str_exn e)],
             log_record ERROR (str ''Failed to send message: '' @ str_exn e) self)) \<and>
   (config self (str ''phone_number'') = None
      \<longrightarrow> send_message self recipient text =
            (Inr [(str ''status'', str ''error''),
                  (str ''error'', [0x27] @ str ''phone_number'' @ [0x27])],
             log_record ERROR
               (str ''Failed to send message: '' @ [0x27] @ str ''phone_number'' @ [0x27]) self)) \<and>
   (config self (str ''phone_number'') = Some p \<and>
    client self (str ''whatsapp:'' @ format_value p) text (str ''whatsapp:'' @ recipient) = Inl e \<and>
    \<not> is_Exception e
      \<longrightarrow> send_message self recipient text = (Inl e, self)) \<and>
   (effective_level self = INFO
      \<longrightarrow> log_record DEBUG msg self = self \<and>
          log_record ERROR msg self = self\<lparr>logger := logger self @ [(ERROR, msg)]\<rparr>)"
  by (simp add: send_message_def messages_create_def log_record_def)

theorem send_message_result_witness:
  "send_message (example_whatsapp (Inr ''SM1'')) (str ''G1'') response =
     (Inr [(str ''status'', str ''success''), (str ''message_id'', str ''SM1'')],
      example_whatsapp (Inr ''SM1'')) \<and>
   send_message (example_whatsapp (Inl (TwilioException (str ''HTTP 401 error'')))) (str ''G1'')
       response =
     (Inr [(str ''status'', str ''error''), (str ''error'', str ''HTTP 401 error'')],
      (example_whatsapp (Inl (TwilioException (str ''HTTP 401 error''))))
        \<lparr>logger := [(ERROR, str ''Failed to send message: HTTP 401 error'')]\<rparr>) \<and>
   send_message ((example_whatsapp (Inr ''SM1''))\<lparr>config := Map.empty\<rparr>) (str ''G1'') response =
     (Inr [(str ''status'', str ''error''),
           (str ''error'', [0x27] @ str ''phone_number'' @ [0x27])],
      (example_whatsapp (Inr ''SM1''))\<lparr>config := Map.empty,
         logger := [(ERROR, str ''Failed to send message: '' @ [0x27] @ str ''phone_number'' @
                      [0x27])]\<rparr>) \<and>
   send_message (example_whatsapp (Inl SystemExit)) (str ''G1'') response =
     (Inl SystemExit, example_whatsapp (Inl SystemExit))"
proof -
  let ?p = "str ''+14155238886''"
  let ?ok = "example_whatsapp (Inr ''SM1'')"
  let ?err = "example_whatsapp (Inl (TwilioException (str ''HTTP 401 error'')))"
  let ?none = "(example_whatsapp (Inr ''SM1''))\<lparr>config := Map.empty\<rparr>"
  let ?exit = "example_whatsapp (Inl SystemExit)"
  have a: "send_message ?ok (str ''G1'') response =
     (Inr [(str ''status'', str ''success''), (str ''message_id'', str ''SM1'')], ?ok)"
    using send_message_result [of ?ok "Some ?p" response "str ''G1''" "str ''SM1''" _
        "str ''Sent message to G1: SM1''"]
    by (simp add: example_whatsapp_def)
  have b: "send_message ?err (str ''G1'') response =
     (Inr [(str ''status'', str ''error''), (str ''error'', str ''HTTP 401 error'')],
      ?err\<lparr>logger := [(ERROR, str ''Failed to send message: HTTP 401 error'')]\<rparr>)"
    using send_message_result [of ?err "Some ?p" response "str ''G1''" _
        "TwilioException (str ''HTTP 401 error'')" "str ''Failed to send message: HTTP 401 error''"]
    by (simp add: example_whatsapp_def)
  have c: "send_message ?none (str ''G1'') response =
     (Inr [(str ''status'', str ''error''),
           (str ''error'', [0x27] @ str ''phone_number'' @ [0x27])],
      (example_whatsapp (Inr ''SM1''))\<lparr>config := Map.empty,
         logger := [(ERROR, str ''Failed to send message: '' @ [0x27] @ str ''phone_number'' @
                      [0x27])]\<rparr>)"
    using send_message_result [of ?none _ response "str ''G1''" _ _
        "str ''Failed to send message: '' @ [0x27] @ str ''phone_number'' @ [0x27]"]
    by (simp add: example_whatsapp_def)
  have d: "send_message ?exit (str ''G1'') response = (Inl SystemExit, ?exit)"
    using send_message_result [of ?exit "Some ?p" response "str ''G1''" _ SystemExit]
    by (simp add: example_whatsapp_def)
  from a b c d show ?thesis by blast
qed

theorem send_message_raises_base_exception:
  "send_message (example_whatsapp (Inl KeyboardInterrupt)) (str ''G1'') response =
     (Inl KeyboardInterrupt, example_whatsapp (Inl KeyboardInterrupt)) \<and>
   \<not> is_Exception KeyboardInterrupt"
  by (simp add: send_message_def messages_create_def example_whatsapp_def)

section \<open>The message store\<close>

text \<open>
  C7. The claim: for every conversation identifier and every limit the history has at
  most \<open>limit\<close> messages, all of the requested conversation, newest first, and is empty
  for an unknown conversation. The code at the limit \<open>0\<close>, on a collection where the
  conversation \<open>G1\<close> has two messages and the server answers: the history has both
  messages, newest first, which is more than the limit.
\<close>

theorem history_limit_zero_unbounded:
  "fst (get_conversation_history \<lparr>connection = [], messages = example_documents\<rparr> (str ''G1'') 0) =
     Inr [\<lparr>sender = str ''+15550002'', group = str ''G1'', content = str ''third'',
           timestamp = 3, message_id = None\<rparr>,
          \<lparr>sender = str ''+15550001'', group = str ''G1'', content = str ''first'',
           timestamp = 1, message_id = None\<rparr>] \<and>
   \<not> int (length [\<lparr>sender = str ''+15550002'', group = str ''G1'', content = str ''third'',
                     timestamp = 3, message_id = None\<rparr>,
                    \<lparr>sender = str ''+15550001'', group = str ''G1'', content = str ''first'',
                     timestamp = 1, message_id = None\<rparr>]) \<le> 0"
  by (simp add: get_conversation_history_def server_call_def limit_cursor_def
      sort_timestamp_desc_def find_group_id_def example_documents_def)

section \<open>The orchestrator\<close>

text \<open>
  C8. The claim: when the payload carries no group identifier, the conversation
  identifier of the constructed message defaults to a pseudo-conversation keyed by the
  sender. What the code does: for a payload with the keys \<open>from\<close> and \<open>body\<close> and without
  \<open>group_id\<close>, the \<open>group\<close> argument evaluated for the \<open>Message\<close> is the empty string,
  whoever the sender is. Where the expression \<open>datetime.now()\<close> returns, the message is
  constructed with that group; where it raises, as it does in the module as written, the
  construction raises the same exception.
\<close>

theorem missing_group_defaults_to_empty:
  assumes "message_data (str ''group_id'') = None"
    and "message_data (str ''from'') = Some from"
    and "message_data (str ''body'') = Some body"
  shows "message_arguments message_data = Inr (from, [], body) \<and>
         make_message now message_data =
           (case now of
              Inl e \<Rightarrow> Inl e
            | Inr t \<Rightarrow>
                Inr \<lparr>sender = from, group = [], content = body, timestamp = t,
                     message_id =
                       Some (case message_data (str ''id'') of None \<Rightarrow> [] | Some i \<Rightarrow> i)\<rparr>)"
  using assms by (simp add: message_arguments_def make_message_def)

theorem missing_group_defaults_to_empty_witness:
  "direct_payload ''+15550001'' ''hello'' (str ''group_id'') = None \<and>
   direct_payload ''+15550001'' ''hello'' (str ''from'') = Some (str ''+15550001'') \<and>
   direct_payload ''+15550001'' ''hello'' (str ''body'') = Some (str ''hello'') \<and>
   message_arguments (direct_payload ''+15550001'' ''hello'') =
     Inr (str ''+15550001'', [], str ''hello'') \<and>
   make_message unbound_datetime (direct_payload ''+15550001'' ''hello'') =
     Inl (NameError (str ''datetime''))"
proof -
  let ?md = "direct_payload ''+15550001'' ''hello''"
  have g: "?md (str ''group_id'') = None"
    by (simp add: direct_payload_def)
  have f: "?md (str ''from'') = Some (str ''+15550001'')"
    by (simp add: direct_payload_def)
  have b: "?md (str ''body'') = Some (str ''hello'')"
    by (simp add: direct_payload_def)
  from missing_group_defaults_to_empty [OF g f b, of unbound_datetime]
  have "message_arguments ?md = Inr (str ''+15550001'', [], str ''hello'') \<and>
        make_message unbound_datetime ?md = Inl (NameError (str ''datetime''))"
    by (simp add: unbound_datetime_def)
  with g f b show ?thesis by blast
qed

theorem direct_messages_share_empty_group:
  "message_arguments (direct_payload ''+15550001'' ''hello'') =
     Inr (str ''+15550001'', [], str ''hello'') \<and>
   message_arguments (direct_payload ''+15550002'' ''hi'') =
     Inr (str ''+15550002'', [], str ''hi'') \<and>
   str ''+15550001'' \<noteq> str ''+15550002'' \<and>
   [] \<noteq> str ''+15550001'' \<and> [] \<noteq> str ''+15550002''"
  by (simp add: message_arguments_def direct_payload_def)

text \<open>
  C2. The claim: a failure of the store operation is caught and logged by the
  orchestrator, and the pipeline continues to the command check, the analysis and the
  decision. What the code does, once the message has been constructed (lines 76 to 95):
  when \<open>store_message\<close> raises \<open>e\<close> for the message, the handler raises \<open>e\<close>; of the bot
  only the connection has changed: no document is stored, the command handler and the
  context of the processor are as before, and the logger of the transport has no new
  record. (With \<open>datetime\<close> unbound the construction raises and the store operation is
  not reached.)
\<close>

theorem store_failure_propagates:
  assumes "fst (store_message (database self) m) = Inl e"
  shows "fst (handle_constructed tolower self m) = Inl e \<and>
         snd (handle_constructed tolower self m) =
           self\<lparr>database := snd (store_message (database self) m)\<rparr> \<and>
         messages (database (snd (handle_constructed tolower self m))) =
           messages (database self) \<and>
         command_handler (snd (handle_constructed tolower self m)) = command_handler self \<and>
         ai_processor (snd (handle_constructed tolower self m)) = ai_processor self \<and>
         whatsapp (snd (handle_constructed tolower self m)) = whatsapp self"
  using assms handle_constructed_store_fails [OF assms, of tolower] store_message_fails [OF assms]
  by simp

theorem store_failure_propagates_witness:
  "fst (store_message
          (database (example_bot (Inr (- 0.9)) [Some (PyMongoError (str ''connection refused''))]
             (Inr ''SM1'')))
          (text_message ''G1'' ''you never listen'')) =
     Inl (PyMongoError (str ''connection refused'')) \<and>
   handle_constructed example_tolower
       (example_bot (Inr (- 0.9)) [Some (PyMongoError (str ''connection refused''))] (Inr ''SM1''))
       (text_message ''G1'' ''you never listen'') =
     (Inl (PyMongoError (str ''connection refused'')), example_bot (Inr (- 0.9)) [] (Inr ''SM1''))"
proof -
  let ?e = "PyMongoError (str ''connection refused'')"
  let ?bot = "example_bot (Inr (- 0.9)) [Some ?e] (Inr ''SM1'') :: (message list) lovebot"
  let ?m = "text_message ''G1'' ''you never listen''"
  have fails: "fst (store_message (database ?bot) ?m) = Inl ?e"
    by (simp add: store_message_def server_call_def example_bot_def)
  have after: "?bot\<lparr>database := snd (store_message (database ?bot) ?m)\<rparr> =
      example_bot (Inr (- 0.9)) [] (Inr ''SM1'')"
    by (simp add: store_message_def server_call_def example_bot_def)
  from store_failure_propagates [OF fails, of example_tolower]
  have "fst (handle_constructed example_tolower ?bot ?m) = Inl ?e"
    and "snd (handle_constructed example_tolower ?bot ?m) =
      ?bot\<lparr>database := snd (store_message (database ?bot) ?m)\<rparr>"
    by blast+
  with after have "handle_constructed example_tolower ?bot ?m =
      (Inl ?e, example_bot (Inr (- 0.9)) [] (Inr ''SM1''))"
    by (simp only: prod_eq_iff fst_conv snd_conv simp_thms)
  with fails show ?thesis by blast
qed

theorem store_failure_aborts_handler:
  "handle_constructed example_tolower
       (example_bot (Inr (- 0.9)) [Some (PyMongoError (str ''connection refused''))] (Inr ''SM1''))
       (text_message ''G1'' ''you never listen'') =
     (Inl (PyMongoError (str ''connection refused'')),
      example_bot (Inr (- 0.9)) [] (Inr ''SM1'')) \<and>
   fst (handle_constructed example_tolower (example_bot (Inr (- 0.9)) [] (Inr ''SM1''))
          (text_message ''G1'' ''you never listen'')) = Inr ResponseSent \<and>
   handle_message example_tolower unbound_datetime
       (example_bot (Inr (- 0.9)) [Some (PyMongoError (str ''connection refused''))] (Inr ''SM1''))
       (group_payload ''G1'' ''you never listen'') =
     (Inl (NameError (str ''datetime'')),
      example_bot (Inr (- 0.9)) [Some (PyMongoError (str ''connection refused''))] (Inr ''SM1''))"
proof (intro conjI)
  show "handle_constructed example_tolower
       (example_bot (Inr (- 0.9)) [Some (PyMongoError (str ''connection refused''))] (Inr ''SM1''))
       (text_message ''G1'' ''you never listen'') =
     (Inl (PyMongoError (str ''connection refused'')),
      example_bot (Inr (- 0.9)) [] (Inr ''SM1''))"
    by (simp add: handle_constructed_def store_message_def server_call_def example_bot_def)
  show "fst (handle_constructed example_tolower (example_bot (Inr (- 0.9)) [] (Inr ''SM1''))
          (text_message ''G1'' ''you never listen'')) = Inr ResponseSent"
    by (simp add: pipeline_defs router_defs example_defs)
  show "handle_message example_tolower unbound_datetime
       (example_bot (Inr (- 0.9)) [Some (PyMongoError (str ''connection refused''))] (Inr ''SM1''))
       (group_payload ''G1'' ''you never listen'') =
     (Inl (NameError (str ''datetime'')),
      example_bot (Inr (- 0.9)) [Some (PyMongoError (str ''connection refused''))] (Inr ''SM1''))"
    by (simp add: handle_message_def make_message_def message_arguments_def unbound_datetime_def
        group_payload_def)
qed




end
